theory Spec2Isabelle
  imports Complex_Main "HOL-Library.AList"
begin

section \<open>The capture and streaming subsystem of sup/stream.py\<close>

text \<open>
  The development follows \<^verbatim>\<open>src/sup/stream.py\<close>: the class \<^verbatim>\<open>MediaStream\<close> (a
  source handle with its polling loop), the class \<^verbatim>\<open>StreamManager\<close> (the registry and
  the device scan) and \<^verbatim>\<open>StreamingHandler.do_GET\<close>. Python floats (frame rates, clock
  readings) are rationals here; no claim below depends on rounding. The polling thread is
  modelled by its loop body, one call of \<open>run_body\<close> per iteration, interleaved with the
  method calls of other threads as whole steps.
\<close>

subsection \<open>Python values, exceptions and the log\<close>

datatype pyerr = AttributeError | ZeroDivisionError | Cv2Error

text \<open>
  A source identifier as the caller passes it: \<^verbatim>\<open>url:int|str\<close>.
\<close>

datatype url = PInt int | PStr string

datatype level = INFO | WARN | ERROR

type_synonym logline = "level \<times> string \<times> url option"

subsection \<open>Images: numpy arrays and cv2.resize\<close>

text \<open>
  An image is a term that records how it was made: \<open>Zeros r c k\<close> is
  \<^verbatim>\<open>np.zeros((r, c, k))\<close>, \<open>Decoded r c k n\<close> is the n-th picture a source decodes,
  with r rows, c columns and k channels, and \<open>Resized src w h\<close> is the value of
  \<^verbatim>\<open>cv2.resize(src, (w, h))\<close>. The interpolated pixel values are not computed; \<open>shape\<close>
  is numpy's \<^verbatim>\<open>.shape\<close>, (rows, columns, channels).
\<close>

datatype image = Zeros nat nat nat | Decoded nat nat nat nat | Resized image nat nat

fun shape :: "image \<Rightarrow> nat \<times> nat \<times> nat" where
  "shape (Zeros r c k) = (r, c, k)"
| "shape (Decoded r c k n) = (r, c, k)"
| "shape (Resized src w h) = (h, w, snd (snd (shape src)))"

text \<open>
  \<^verbatim>\<open>cv2.resize(src, dsize)\<close>: OpenCV reads \<open>dsize\<close> as (width, height), so the result
  has \<open>snd dsize\<close> rows and \<open>fst dsize\<close> columns. With no scale factors given, an empty
  source or a \<open>dsize\<close> with a component that is not positive fails an assertion, which
  Python sees as \<^verbatim>\<open>cv2.error\<close>.
\<close>

definition cv2_resize :: "image \<Rightarrow> int \<times> int \<Rightarrow> pyerr + image" where
  "cv2_resize src dsize =
     (if fst (shape src) = 0 \<or> fst (snd (shape src)) = 0 then Inl Cv2Error
      else if fst dsize \<le> 0 \<or> snd dsize \<le> 0 then Inl Cv2Error
      else Inr (Resized src (nat (fst dsize)) (nat (snd dsize))))"

text \<open>\<^verbatim>\<open>np.clip(x, lo, hi)\<close> on a scalar is \<^verbatim>\<open>minimum(maximum(x, lo), hi)\<close>.\<close>

definition np_clip :: "int \<Rightarrow> int \<Rightarrow> int \<Rightarrow> int" where
  "np_clip x lo hi = min (max x lo) hi"

text \<open>
  \<^verbatim>\<open>x or d\<close> for an optional number: \<^verbatim>\<open>None\<close> and zero are falsy.
\<close>

definition py_or :: "int option \<Rightarrow> int \<Rightarrow> int" where
  "py_or x d = (case x of None \<Rightarrow> d | Some v \<Rightarrow> if v = 0 then d else v)"

definition py_or_rat :: "rat option \<Rightarrow> rat \<Rightarrow> rat" where
  "py_or_rat x d = (case x of None \<Rightarrow> d | Some v \<Rightarrow> if v = 0 then d else v)"

subsection \<open>The world outside the process\<close>

text \<open>
  What the program reads from outside and what it leaves there. \<open>cv_opens u x\<close> says
  whether \<^verbatim>\<open>cv2.VideoCapture(u, x)\<close> comes back opened, \<open>cv_media u\<close> is the frame
  sequence behind \<open>u\<close> and \<open>cv_rate u\<close> the rate it reports; \<open>py_int\<close> is Python's
  \<^verbatim>\<open>int()\<close> on a string (\<open>None\<close> where it raises \<^verbatim>\<open>ValueError\<close>); \<open>clock\<close> gives the
  successive readings of \<^verbatim>\<open>time.time()\<close> and \<open>ticks\<close> counts the readings made so far.
  The program appends to \<open>logged\<close> (the log), to \<open>probes\<close> (every
  \<^verbatim>\<open>cv2.VideoCapture\<close> constructed, in order) and to \<open>slept\<close> (every \<^verbatim>\<open>time.sleep\<close>).
\<close>

record world =
  cv_opens :: "url \<Rightarrow> int \<Rightarrow> bool"
  cv_media :: "url \<Rightarrow> image list"
  cv_rate :: "url \<Rightarrow> rat"
  py_int :: "string \<Rightarrow> int option"
  clock :: "nat \<Rightarrow> rat"
  ticks :: nat
  logged :: "logline list"
  probes :: "(url \<times> int) list"
  slept :: "rat list"

text \<open>
  Modelled from the spec: \<^verbatim>\<open>loginfo\<close>, \<^verbatim>\<open>logwarn\<close> and \<^verbatim>\<open>logerr\<close> of \<^verbatim>\<open>sup.util\<close> are
  not among the sources; each writes one line of its level to the log ("Logged", section 7).
\<close>

definition loginfo :: "string \<Rightarrow> url option \<Rightarrow> world \<Rightarrow> world" where
  "loginfo m u w = w\<lparr>logged := logged w @ [(INFO, m, u)]\<rparr>"

definition logwarn :: "string \<Rightarrow> url option \<Rightarrow> world \<Rightarrow> world" where
  "logwarn m u w = w\<lparr>logged := logged w @ [(WARN, m, u)]\<rparr>"

definition logerr :: "string \<Rightarrow> url option \<Rightarrow> world \<Rightarrow> world" where
  "logerr m u w = w\<lparr>logged := logged w @ [(ERROR, m, u)]\<rparr>"

definition time_time :: "world \<Rightarrow> rat \<times> world" where
  "time_time w = (clock w (ticks w), w\<lparr>ticks := ticks w + 1\<rparr>)"

definition time_sleep :: "rat \<Rightarrow> world \<Rightarrow> world" where
  "time_sleep d w = w\<lparr>slept := slept w @ [d]\<rparr>"

subsection \<open>cv2.VideoCapture\<close>

text \<open>
  A capture object over a finite frame sequence. A capture that is not opened reads
  nothing, reports 0 for every property and ignores \<^verbatim>\<open>set\<close>; a live device differs from
  a file only in what \<open>cv_media\<close> holds for it.
\<close>

record VideoCapture =
  vc_opened :: bool
  vc_frames :: "image list"
  vc_pos :: nat
  vc_fps :: rat

definition cv2_VideoCapture :: "url \<Rightarrow> int \<Rightarrow> world \<Rightarrow> VideoCapture \<times> world" where
  "cv2_VideoCapture u x w =
     (\<lparr>vc_opened = cv_opens w u x, vc_frames = cv_media w u, vc_pos = 0, vc_fps = cv_rate w u\<rparr>,
      w\<lparr>probes := probes w @ [(u, x)]\<rparr>)"

definition isOpened :: "VideoCapture \<Rightarrow> bool" where
  "isOpened v = vc_opened v"

definition vc_read :: "VideoCapture \<Rightarrow> (bool \<times> image option) \<times> VideoCapture" where
  "vc_read v =
     (if vc_opened v \<and> vc_pos v < length (vc_frames v)
      then ((True, Some (vc_frames v ! vc_pos v)), v\<lparr>vc_pos := vc_pos v + 1\<rparr>)
      else ((False, None), v))"

datatype cap_prop = CAP_PROP_FRAME_COUNT | CAP_PROP_POS_FRAMES | CAP_PROP_FPS

fun vc_get :: "VideoCapture \<Rightarrow> cap_prop \<Rightarrow> rat" where
  "vc_get v CAP_PROP_FRAME_COUNT = (if vc_opened v then of_nat (length (vc_frames v)) else 0)"
| "vc_get v CAP_PROP_POS_FRAMES = (if vc_opened v then of_nat (vc_pos v) else 0)"
| "vc_get v CAP_PROP_FPS = (if vc_opened v then vc_fps v else 0)"

definition vc_set_pos :: "VideoCapture \<Rightarrow> nat \<Rightarrow> VideoCapture" where
  "vc_set_pos v p = (if vc_opened v then v\<lparr>vc_pos := p\<rparr> else v)"

definition vc_release :: "VideoCapture \<Rightarrow> VideoCapture" where
  "vc_release v = v\<lparr>vc_opened := False\<rparr>"

definition CAP_ANY :: int where
  "CAP_ANY = 0"

subsection \<open>MediaStream\<close>

text \<open>
  The private attributes of a \<^verbatim>\<open>MediaStream\<close>; \<open>m_size\<close> is \<^verbatim>\<open>__size\<close>, stored as
  (height, width), and \<open>m_running\<close> is \<^verbatim>\<open>__running\<close>, unset until a capture fails.
\<close>

record MediaStream =
  m_source :: "VideoCapture option"
  m_quit :: bool
  m_paused :: bool
  m_ret :: bool
  m_backend :: "int list"
  m_frame :: image
  m_fps :: rat
  m_size :: "int \<times> int"
  m_mode :: string
  m_url :: url
  m_running :: "bool option"

text \<open>
  The setter of \<^verbatim>\<open>size\<close>. The new \<^verbatim>\<open>__size\<close> is stored before \<^verbatim>\<open>cv2.resize\<close> runs, so
  the store stands when the resize raises.
\<close>

definition size_set ::
  "(int option \<times> int option) option \<Rightarrow> MediaStream \<Rightarrow> pyerr option \<times> MediaStream" where
  "size_set sz s =
     (let sz1 = (case sz of None \<Rightarrow> (Some 512, Some 512) | Some p \<Rightarrow> p);
          width = np_clip (py_or (fst sz1) 512) 0 8192;
          height = np_clip (py_or (snd sz1) 512) 0 8192;
          s1 = s\<lparr>m_size := (height, width)\<rparr>
      in case cv2_resize (m_frame s1) (m_size s1) of
           Inl e \<Rightarrow> (Some e, s1)
         | Inr f \<Rightarrow> (None, s1\<lparr>m_frame := f\<rparr>))"

definition size_get :: "MediaStream \<Rightarrow> int \<times> int" where
  "size_get s = m_size s"

definition frame :: "MediaStream \<Rightarrow> bool \<times> image" where
  "frame s = (m_ret s, m_frame s)"

definition isOpen :: "MediaStream \<Rightarrow> bool" where
  "isOpen s = (case m_source s of None \<Rightarrow> False | Some v \<Rightarrow> isOpened v)"

text \<open>\<^verbatim>\<open>int(url)\<close> with its \<^verbatim>\<open>ValueError\<close> handler.\<close>

definition resolve :: "world \<Rightarrow> url \<Rightarrow> url" where
  "resolve w u =
     (case u of PInt i \<Rightarrow> PInt i
      | PStr t \<Rightarrow> (case py_int w t of Some i \<Rightarrow> PInt i | None \<Rightarrow> PStr t))"

text \<open>
  \<^verbatim>\<open>__init__\<close>. The thread it starts runs \<open>run_loop\<close> below; the handle starts paused.
\<close>

definition MediaStream_init ::
  "world \<Rightarrow> url \<Rightarrow> (int option \<times> int option) option \<Rightarrow> rat option \<Rightarrow> string \<Rightarrow> int option
     \<Rightarrow> pyerr + MediaStream" where
  "MediaStream_init w u sz fps mode backend =
     (let s0 = \<lparr>m_source = None, m_quit = False, m_paused = True, m_ret = False,
                m_backend = (case backend of None \<Rightarrow> [CAP_ANY]
                             | Some b \<Rightarrow> if b = 0 then [CAP_ANY] else [b]),
                m_frame = Zeros 1 1 3, m_fps = py_or_rat fps 60, m_size = (0, 0),
                m_mode = [], m_url = u, m_running = None\<rparr>
      in case size_set sz s0 of
           (Some e, _) \<Rightarrow> Inl e
         | (None, s1) \<Rightarrow> Inr (s1\<lparr>m_mode := mode, m_url := resolve w u\<rparr>))"

text \<open>The loop of \<^verbatim>\<open>capture\<close> over the backend list.\<close>

fun try_backends ::
  "url \<Rightarrow> int list \<Rightarrow> VideoCapture option \<Rightarrow> world \<Rightarrow> bool \<times> VideoCapture option \<times> world" where
  "try_backends u [] src w = (False, src, w)"
| "try_backends u (x # xs) src w =
     (case cv2_VideoCapture u x w of
        (v, w1) \<Rightarrow> if isOpened v then (True, Some v, w1) else try_backends u xs (Some v) w1)"

text \<open>
  \<^verbatim>\<open>capture(self, size=None, fps=60)\<close>. The first component of the result is the
  exception the call ends with, if any.
\<close>

definition capture ::
  "(int option \<times> int option) option \<Rightarrow> rat \<Rightarrow> MediaStream \<Rightarrow> world
     \<Rightarrow> pyerr option \<times> MediaStream \<times> world" where
  "capture sz fps s w =
     (if isOpen s then (None, s\<lparr>m_paused := False\<rparr>, w)
      else
        (let w1 = loginfo ''[MediaStream] CAPTURE'' (Some (m_url s)) w
         in case try_backends (m_url s) (m_backend s) (m_source s) w1 of
              (found, src, w2) \<Rightarrow>
                if \<not> found
                then (None, s\<lparr>m_source := src, m_running := Some False\<rparr>,
                      logerr ''[MediaStream] CAPTURE FAIL'' (Some (m_url s)) w2)
                else
                  (let w3 = time_sleep 1 w2;
                       rate = (if m_fps s \<noteq> 0 then m_fps s
                               else (case src of None \<Rightarrow> 0 | Some v \<Rightarrow> vc_get v CAP_PROP_FPS))
                   in (None, s\<lparr>m_source := src, m_fps := max 1 rate, m_paused := False\<rparr>,
                       loginfo ''[MediaStream] CAPTURED'' (Some (m_url s)) w3))))"

definition pause :: "MediaStream \<Rightarrow> world \<Rightarrow> MediaStream \<times> world" where
  "pause s w = (s\<lparr>m_paused := True\<rparr>, logwarn ''[MediaStream] PAUSED'' (Some (m_url s)) w)"

definition release :: "MediaStream \<Rightarrow> world \<Rightarrow> MediaStream \<times> world" where
  "release s w =
     (case m_source s of
        None \<Rightarrow> (s, w)
      | Some v \<Rightarrow> (s\<lparr>m_source := Some (vc_release v)\<rparr>,
                   logwarn ''[MediaStream] RELEASED'' (Some (m_url s)) w))"

subsection \<open>The polling loop\<close>

text \<open>
  The end of an iteration: \<^verbatim>\<open>waste = max(waste - time.time(), 0); time.sleep(waste)\<close>.
  The results of the loop's parts are the exception that ends the thread (if any), the
  local \<^verbatim>\<open>timeout\<close>, the handle and the world.
\<close>

definition run_rest ::
  "rat \<Rightarrow> rat option \<Rightarrow> MediaStream \<Rightarrow> world \<Rightarrow> pyerr option \<times> rat option \<times> MediaStream \<times> world" where
  "run_rest waste timeout s w =
     (case time_time w of (t, w1) \<Rightarrow> (None, timeout, s, time_sleep (max (waste - t) 0) w1))"

text \<open>Lines 67 to 70: back to frame 0 when the position has reached the frame count.\<close>

definition seek_if_at_end :: "VideoCapture \<Rightarrow> VideoCapture" where
  "seek_if_at_end v =
     (let count = vc_get v CAP_PROP_FRAME_COUNT;
          pos = vc_get v CAP_PROP_POS_FRAMES
      in if pos \<ge> count then vc_set_pos v 0 else v)"

text \<open>
  Lines 72 to 78: the stall timer of a source that is not opened. The reopen is
  \<^verbatim>\<open>self.capture()\<close>, with the defaults of its two parameters.
\<close>

definition run_stalled ::
  "rat option \<Rightarrow> MediaStream \<Rightarrow> VideoCapture \<Rightarrow> world
     \<Rightarrow> pyerr option \<times> rat option \<times> MediaStream \<times> world" where
  "run_stalled timeout s v w =
     (if \<not> isOpened v then
        (case timeout of
           None \<Rightarrow> (case time_time w of (t, w1) \<Rightarrow> (None, Some t, s, w1))
         | Some t0 \<Rightarrow>
             (case time_time w of (t, w1) \<Rightarrow>
                if t - t0 > 2 then
                  (case capture None 60 (s\<lparr>m_source := Some (vc_release v)\<rparr>)
                          (logwarn ''[MediaStream] TIMEOUT'' (Some (m_url s)) w1) of
                     (e, s2, w3) \<Rightarrow> (e, timeout, s2, w3))
                else (None, timeout, s, w1)))
      else (None, timeout, s, w))"

text \<open>The \<^verbatim>\<open>else\<close> branch of line 64: the read gave no frame.\<close>

definition run_failed ::
  "rat \<Rightarrow> rat option \<Rightarrow> MediaStream \<Rightarrow> VideoCapture \<Rightarrow> world
     \<Rightarrow> pyerr option \<times> rat option \<times> MediaStream \<times> world" where
  "run_failed waste timeout s v w =
     (let v1 = (if \<not> m_ret s then seek_if_at_end v else v)
      in case run_stalled timeout (s\<lparr>m_source := Some v1\<rparr>) v1 w of
           (Some e, r) \<Rightarrow> (Some e, r)
         | (None, timeout1, s1, w1) \<Rightarrow> run_rest waste timeout1 s1 w1)"

text \<open>
  One iteration of \<^verbatim>\<open>__run\<close>. Its first argument is the value the local \<^verbatim>\<open>timeout\<close>
  has when the iteration starts (what the iteration before left in it); line 50 then
  assigns \<^verbatim>\<open>None\<close> to it. With no source, \<^verbatim>\<open>read\<close> raises inside the \<^verbatim>\<open>try\<close> and
  \<^verbatim>\<open>get\<close> raises outside it.
\<close>

definition run_body ::
  "rat option \<Rightarrow> MediaStream \<Rightarrow> world \<Rightarrow> pyerr option \<times> rat option \<times> MediaStream \<times> world" where
  "run_body timeout_before s w =
     (case time_time w of (t0, w1) \<Rightarrow>
        if m_fps s = 0 then (Some ZeroDivisionError, timeout_before, s, w1)
        else
          (let waste = t0 + 1 / m_fps s;
               timeout = None
           in if \<not> m_paused s then
                (case m_source s of
                   None \<Rightarrow> (Some AttributeError, timeout, s\<lparr>m_ret := False\<rparr>, w1)
                 | Some v \<Rightarrow>
                     (case vc_read v of
                        ((ret, newframe), v1) \<Rightarrow>
                          (let s1 = s\<lparr>m_source := Some v1, m_ret := ret\<rparr>
                           in case newframe of
                                None \<Rightarrow> run_failed waste timeout s1 v1 w1
                              | Some nf \<Rightarrow>
                                  if ret then
                                    (case shape nf of
                                       (width, height, _) \<Rightarrow>
                                         if int width \<noteq> snd (m_size s1) \<or> int height \<noteq> fst (m_size s1)
                                         then (case cv2_resize nf (m_size s1) of
                                                 Inl e \<Rightarrow> (Some e, None, s1, w1)
                                               | Inr f \<Rightarrow> run_rest waste None (s1\<lparr>m_frame := f\<rparr>) w1)
                                         else run_rest waste None (s1\<lparr>m_frame := nf\<rparr>) w1)
                                  else run_failed waste timeout s1 v1 w1)))
              else run_rest waste timeout s w1))"

text \<open>
  The first \<open>n\<close> iterations of \<^verbatim>\<open>while not self.__quit\<close>: it stops early when the quit
  flag is set or an iteration raises.
\<close>

fun run_iters ::
  "nat \<Rightarrow> rat option \<Rightarrow> MediaStream \<Rightarrow> world \<Rightarrow> pyerr option \<times> rat option \<times> MediaStream \<times> world" where
  "run_iters 0 timeout s w = (None, timeout, s, w)"
| "run_iters (Suc n) timeout s w =
     (if m_quit s then (None, timeout, s, w)
      else case run_body timeout s w of
             (Some e, r) \<Rightarrow> (Some e, r)
           | (None, timeout1, s1, w1) \<Rightarrow> run_iters n timeout1 s1 w1)"

subsection \<open>StreamManager\<close>

text \<open>
  \<^verbatim>\<open>StreamManager.STREAM\<close>, a dict: an association list in insertion order, read with
  \<open>map_of\<close> and written with \<open>AList.update\<close>.
\<close>

type_synonym registry = "(url \<times> MediaStream) list"

text \<open>The loop \<^verbatim>\<open>for i in range(5)\<close> of \<^verbatim>\<open>devicescan\<close>, over the indices still to visit.\<close>

fun scan_range ::
  "bool \<Rightarrow> int list \<Rightarrow> registry \<Rightarrow> world \<Rightarrow> pyerr option \<times> registry \<times> world" where
  "scan_range cap [] reg w = (None, reg, w)"
| "scan_range cap (i # rest) reg w =
     (case MediaStream_init w (PInt i) None None ''FIT'' None of
        Inl e \<Rightarrow> (Some e, reg, w)
      | Inr stream \<Rightarrow>
          if cap then
            (case capture None 60 stream w of
               (Some e, stream1, w1) \<Rightarrow> (Some e, reg, w1)
             | (None, stream1, w1) \<Rightarrow>
                 if \<not> isOpen stream1 then (None, reg, w1)
                 else scan_range cap rest (AList.update (PInt i) stream1 reg) w1)
          else scan_range cap rest (AList.update (PInt i) stream reg) w)"

text \<open>\<^verbatim>\<open>for stream in StreamManager.STREAM.values(): stream.release()\<close>\<close>

fun release_all :: "registry \<Rightarrow> world \<Rightarrow> registry \<times> world" where
  "release_all [] w = ([], w)"
| "release_all ((k, stream) # reg) w =
     (case release stream w of
        (stream1, w1) \<Rightarrow> (case release_all reg w1 of (reg1, w2) \<Rightarrow> ((k, stream1) # reg1, w2)))"

text \<open>
  \<^verbatim>\<open>devicescan(cls, capture=False)\<close>. The \<^verbatim>\<open>del stream\<close> of its first loop unbinds a local
  name only; the old registry is dropped by the assignment of \<^verbatim>\<open>{}\<close>.
\<close>

definition devicescan :: "bool \<Rightarrow> registry \<Rightarrow> world \<Rightarrow> pyerr option \<times> registry \<times> world" where
  "devicescan cap reg w =
     (case time_time w of
        (start, w1) \<Rightarrow>
          (case scan_range cap [0, 1, 2, 3, 4] [] w1 of
             (Some e, reg1, w2) \<Rightarrow> (Some e, reg1, w2)
           | (None, reg1, w2) \<Rightarrow>
               (case (if cap then release_all reg1 w2 else (reg1, w2)) of
                  (reg2, w3) \<Rightarrow>
                    (case time_time w3 of
                       (t, w4) \<Rightarrow> (None, reg2, loginfo ''[StreamManager] SCAN'' None w4)))))"

definition streams :: "registry \<Rightarrow> url list" where
  "streams reg = map fst reg"

definition active :: "registry \<Rightarrow> MediaStream list" where
  "active reg = filter isOpen (map snd reg)"

definition StreamManager_frame :: "registry \<Rightarrow> url \<Rightarrow> bool \<times> image" where
  "StreamManager_frame reg u =
     (case map_of reg u of None \<Rightarrow> (False, Zeros 512 512 3) | Some stream \<Rightarrow> frame stream)"

text \<open>
  \<^verbatim>\<open>StreamManager.capture\<close>; the handle it returns is the registry's entry for the key.
\<close>

definition StreamManager_capture ::
  "url \<Rightarrow> (int option \<times> int option) option \<Rightarrow> rat option \<Rightarrow> int option \<Rightarrow> registry \<Rightarrow> world
     \<Rightarrow> pyerr option \<times> registry \<times> world" where
  "StreamManager_capture u sz fps backend reg w =
     (case map_of reg u of
        None \<Rightarrow>
          (case MediaStream_init w u sz fps ''FIT'' backend of
             Inl e \<Rightarrow> (Some e, reg, w)
           | Inr stream \<Rightarrow>
               (case capture None 60 stream w of
                  (e, stream1, w1) \<Rightarrow> (e, AList.update u stream1 reg, w1)))
      | Some stream \<Rightarrow>
          (case capture None 60 stream w of
             (e, stream1, w1) \<Rightarrow> (e, AList.update u stream1 reg, w1)))"

text \<open>
  \<^verbatim>\<open>StreamManager.pause\<close>: the guard is \<^verbatim>\<open>is None\<close>, so the call of \<^verbatim>\<open>stream.pause()\<close> is
  on \<^verbatim>\<open>None\<close>, an \<^verbatim>\<open>AttributeError\<close>; a handle that is found is left alone.
\<close>

definition StreamManager_pause ::
  "url \<Rightarrow> registry \<Rightarrow> world \<Rightarrow> pyerr option \<times> registry \<times> world" where
  "StreamManager_pause u reg w =
     (case map_of reg u of
        None \<Rightarrow> (Some AttributeError, reg, w)
      | Some stream \<Rightarrow> (None, reg, w))"

subsection \<open>StreamingHandler\<close>

text \<open>
  \<^verbatim>\<open>str.lower\<close> on the characters a request path can hold (http.server decodes the
  request line as ISO 8859-1): the letters A to Z and the accented capitals 192 to 222,
  without the multiplication sign 215, move up by 32.
\<close>

definition lower_char :: "char \<Rightarrow> char" where
  "lower_char c =
     (let n = (of_char c :: nat)
      in if (65 \<le> n \<and> n \<le> 90) \<or> (192 \<le> n \<and> n \<le> 222 \<and> n \<noteq> 215)
         then char_of (n + 32) else c)"

definition lower :: "string \<Rightarrow> string" where
  "lower p = map lower_char p"

text \<open>An entry of \<^verbatim>\<open>StreamingServer.OUT\<close>: \<^verbatim>\<open>{'_': stream, 'b': frame}\<close>.\<close>

record endpoint =
  ep_stream :: MediaStream
  ep_b :: "image option"

type_synonym outputs = "(string \<times> endpoint) list"

definition endpointAdd :: "string \<Rightarrow> MediaStream \<Rightarrow> outputs \<Rightarrow> outputs" where
  "endpointAdd name stream out = AList.update name \<lparr>ep_stream = stream, ep_b = None\<rparr> out"

text \<open>What the handler does to the connection, call by call.\<close>

datatype hval = HStr string | HInt nat

datatype http_out =
  SendResponse nat | SendHeader string hval | EndHeaders | WfileWrite string

text \<open>
  The \<^verbatim>\<open>while True\<close> of \<^verbatim>\<open>do_GET\<close>. Each element of the list is one iteration: the
  value of \<^verbatim>\<open>data['b']\<close> the iteration reads (the refresh thread rewrites it) and whether
  the client still takes what is written; \<open>enc\<close> is \<^verbatim>\<open>cv2.imencode('.jpg', _)\<close>, \<open>None\<close>
  where it raises. A part whose writing fails is left out whole. The boolean of the
  result says that the loop has ended; it is false when the list ends first.
\<close>

fun stream_parts ::
  "(image \<Rightarrow> string option) \<Rightarrow> (image option \<times> bool) list \<Rightarrow> world
     \<Rightarrow> http_out list \<times> bool \<times> world" where
  "stream_parts enc [] w = ([], False, w)"
| "stream_parts enc ((None, ok) # rest) w = stream_parts enc rest w"
| "stream_parts enc ((Some f, ok) # rest) w =
     (case enc f of
        None \<Rightarrow> ([], True, logerr ''Error'' None w)
      | Some jpeg \<Rightarrow>
          if ok then
            (case stream_parts enc rest w of
               (out, fin, w1) \<Rightarrow>
                 ([WfileWrite (''--frame'' @ [CHR 0x0D, CHR 0x0A]),
                   SendHeader ''Content-Type'' (HStr ''image/jpeg''),
                   SendHeader ''Content-Length'' (HInt (length jpeg)),
                   EndHeaders,
                   WfileWrite jpeg,
                   WfileWrite [CHR 0x0D, CHR 0x0A]] @ out, fin, w1))
          else ([], True, logerr ''Error'' None w))"

text \<open>
  \<^verbatim>\<open>do_GET\<close>, for the request path \<open>path\<close> and the endpoint table \<open>out\<close>.
\<close>

definition do_GET ::
  "(image \<Rightarrow> string option) \<Rightarrow> (image option \<times> bool) list \<Rightarrow> string \<Rightarrow> outputs \<Rightarrow> world
     \<Rightarrow> http_out list \<times> bool \<times> world" where
  "do_GET enc reads path out w =
     (let key = lower path
      in case map_of out key of
           None \<Rightarrow> ([], True, w)
         | Some data \<Rightarrow>
             (case stream_parts enc reads w of
                (parts, fin, w1) \<Rightarrow>
                  ([SendResponse 200,
                    SendHeader ''Content-Type'' (HStr ''multipart/x-mixed-replace; boundary=frame''),
                    EndHeaders] @ parts, fin, w1)))"

subsection \<open>A host for the examples\<close>

text \<open>
  A host with one camera, device 0, and one video file of three frames at 30 frames per
  second; every other source fails to open. The clock advances one second per reading.
\<close>

definition demo_world :: world where
  "demo_world =
     \<lparr>cv_opens = (\<lambda>u x. u = PInt 0 \<or> u = PStr ''clip.mp4''),
      cv_media = (\<lambda>u. if u = PStr ''clip.mp4''
                        then [Decoded 4 6 3 0, Decoded 4 6 3 1, Decoded 4 6 3 2] else []),
      cv_rate = (\<lambda>u. if u = PStr ''clip.mp4'' then 30 else 0),
      py_int = (\<lambda>t. if t = ''0'' then Some 0 else None),
      clock = (\<lambda>n. of_nat n),
      ticks = 0, logged = [], probes = [], slept = []\<rparr>"

text \<open>\<^verbatim>\<open>MediaStream('clip.mp4')\<close> and \<^verbatim>\<open>MediaStream(7)\<close>, as \<open>MediaStream_init\<close> builds them.\<close>

definition demo_handle :: MediaStream where
  "demo_handle =
     \<lparr>m_source = None, m_quit = False, m_paused = True, m_ret = False, m_backend = [CAP_ANY],
      m_frame = Resized (Zeros 1 1 3) 512 512, m_fps = 60, m_size = (512, 512),
      m_mode = ''FIT'', m_url = PStr ''clip.mp4'', m_running = None\<rparr>"

definition demo_absent :: MediaStream where
  "demo_absent = demo_handle\<lparr>m_url := PInt 7\<rparr>"

text \<open>
  The file's capture object once its three frames are read, and the handle that holds
  it: \<^verbatim>\<open>MediaStream('clip.mp4')\<close> after \<^verbatim>\<open>capture()\<close> and three iterations of the loop.
\<close>

definition demo_clip :: VideoCapture where
  "demo_clip =
     \<lparr>vc_opened = True, vc_frames = [Decoded 4 6 3 0, Decoded 4 6 3 1, Decoded 4 6 3 2],
      vc_pos = 3, vc_fps = 30\<rparr>"

definition demo_played :: MediaStream where
  "demo_played =
     demo_handle\<lparr>m_source := Some demo_clip, m_paused := False, m_ret := True,
                 m_frame := Resized (Decoded 4 6 3 2) 512 512\<rparr>"

text \<open>An endpoint table with one entry, as \<^verbatim>\<open>endpointAdd('/video.mjpg', _)\<close> leaves it.\<close>

definition demo_out :: outputs where
  "demo_out = endpointAdd ''/video.mjpg'' demo_handle []"

section \<open>Properties\<close>

lemmas eval_defs =
  MediaStream_init_def size_set_def cv2_resize_def np_clip_def py_or_def py_or_rat_def
  resolve_def demo_world_def demo_handle_def demo_absent_def CAP_ANY_def Let_def capture_def
  isOpen_def isOpened_def cv2_VideoCapture_def loginfo_def logerr_def logwarn_def
  time_sleep_def time_time_def release_def vc_release_def StreamManager_capture_def
  StreamManager_pause_def run_body_def run_failed_def run_stalled_def run_rest_def
  seek_if_at_end_def vc_set_pos_def vc_read_def

lemma demo_handle_init:
  "MediaStream_init demo_world (PStr ''clip.mp4'') None None ''FIT'' None = Inr demo_handle"
  by (simp add: eval_defs)

lemma demo_absent_init:
  "MediaStream_init demo_world (PInt 7) None None ''FIT'' None = Inr demo_absent"
  by (simp add: eval_defs)

subsection \<open>The size setter\<close>

text \<open>
  The shape the setter leaves. The pair stored is (height, width), and it is the pair
  handed to \<^verbatim>\<open>cv2.resize\<close>, which reads it as (width, height): for positive w and h
  the cached frame gets w rows and h columns.
\<close>

lemma size_set_shape:
  assumes "0 < w" and "w \<le> 8192" and "0 < h" and "h \<le> 8192"
    and "shape (m_frame s) = (r, c, k)" and "0 < r" and "0 < c"
  shows "fst (size_set (Some (Some w, Some h)) s) = None
         \<and> m_size (snd (size_set (Some (Some w, Some h)) s)) = (h, w)
         \<and> shape (m_frame (snd (size_set (Some (Some w, Some h)) s))) = (nat w, nat h, k)"
  using assms by (simp add: size_set_def cv2_resize_def np_clip_def py_or_def Let_def)

text \<open>
  C2 fails on the code: assigning (640, 480) to the size of a fresh handle raises nothing
  and stores the target (480, 640), but the cached frame it leaves has the shape
  (640, 480, 3), not (480, 640, 3).
\<close>

theorem size_set_transposes:
  "MediaStream_init demo_world (PStr ''clip.mp4'') None None ''FIT'' None = Inr demo_handle
   \<and> fst (size_set (Some (Some 640, Some 480)) demo_handle) = None
   \<and> m_size (snd (size_set (Some (Some 640, Some 480)) demo_handle)) = (480, 640)
   \<and> shape (m_frame (snd (size_set (Some (Some 640, Some 480)) demo_handle))) = (640, 480, 3)
   \<and> shape (m_frame (snd (size_set (Some (Some 640, Some 480)) demo_handle))) \<noteq> (480, 640, 3)"
  by (simp add: eval_defs)

text \<open>What the setter stores, whether or not the resize then raises.\<close>

lemma size_set_stored:
  "m_size (snd (size_set sz s)) =
     (case sz of None \<Rightarrow> (512, 512)
      | Some p \<Rightarrow> (np_clip (py_or (snd p) 512) 0 8192, np_clip (py_or (fst p) 512) 0 8192))"
  by (simp add: size_set_def Let_def np_clip_def py_or_def split: sum.splits option.splits)

lemma np_clip_zero_iff: "(np_clip (py_or x 512) 0 8192 = 0) = (\<exists>n. x = Some n \<and> n < 0)"
  by (cases x) (auto simp add: np_clip_def py_or_def)

text \<open>
  C10: in the size setter a component that is 0 or None becomes 512 before the clamp to
  [0, 8192]: assigning (0, 0) or None stores the target 512 x 512, and a stored component
  is 0 exactly when the component passed is negative.
\<close>

theorem size_set_falsy_default:
  "m_size (snd (size_set (Some (Some 0, Some 0)) s)) = (512, 512)
   \<and> m_size (snd (size_set None s)) = (512, 512)
   \<and> snd (m_size (snd (size_set (Some (None, b)) s))) = 512
   \<and> snd (m_size (snd (size_set (Some (Some 0, b)) s))) = 512
   \<and> fst (m_size (snd (size_set (Some (a, None)) s))) = 512
   \<and> fst (m_size (snd (size_set (Some (a, Some 0)) s))) = 512
   \<and> m_size (snd (size_set (Some (a, b)) s))
       = (np_clip (py_or b 512) 0 8192, np_clip (py_or a 512) 0 8192)
   \<and> (snd (m_size (snd (size_set (Some (a, b)) s))) = 0) = (\<exists>n. a = Some n \<and> n < 0)
   \<and> (fst (m_size (snd (size_set (Some (a, b)) s))) = 0) = (\<exists>n. b = Some n \<and> n < 0)"
proof -
  have k: "np_clip (py_or None 512) 0 8192 = 512" "np_clip (py_or (Some 0) 512) 0 8192 = 512"
    by (simp_all add: np_clip_def py_or_def)
  show ?thesis
    by (simp add: size_set_stored np_clip_zero_iff k)
qed

theorem size_set_falsy_default_witness:
  "m_size (snd (size_set (Some (Some 0, Some 0)) demo_handle)) = (512, 512)
   \<and> m_size (snd (size_set None demo_handle)) = (512, 512)
   \<and> m_size (snd (size_set (Some (Some (- 3), Some 700)) demo_handle)) = (700, 0)
   \<and> fst (size_set (Some (Some (- 3), Some 700)) demo_handle) = Some Cv2Error"
  using size_set_falsy_default [of demo_handle "Some 700" "Some (- 3)"]
  by (simp add: eval_defs)

subsection \<open>capture\<close>

text \<open>
  C4 fails on the code: \<^verbatim>\<open>MediaStream('clip.mp4')\<close>, built with no \<^verbatim>\<open>fps\<close>, holds 60
  from \<^verbatim>\<open>fps or 60\<close>; the \<^verbatim>\<open>capture()\<close> that opens the file (which reports 30) keeps 60,
  since \<^verbatim>\<open>self.__fps or ...\<close> never reaches the source.
\<close>

theorem capture_keeps_default_fps:
  "MediaStream_init demo_world (PStr ''clip.mp4'') None None ''FIT'' None = Inr demo_handle
   \<and> (case capture None 60 demo_handle demo_world of
        (e, s, w) \<Rightarrow>
          isOpen s \<and> m_fps s = 60
          \<and> map_option (\<lambda>v. vc_get v CAP_PROP_FPS) (m_source s) = Some 30)"
  by (simp add: eval_defs)

text \<open>Backends that all fail: the loop tries each, in order, and finds none.\<close>

lemma try_backends_none:
  "\<forall>x\<in>set xs. \<not> cv_opens w u x \<Longrightarrow>
   (case src of None \<Rightarrow> True | Some v \<Rightarrow> \<not> isOpened v) \<Longrightarrow>
   \<exists>src' w'. try_backends u xs src w = (False, src', w')
     \<and> (case src' of None \<Rightarrow> True | Some v \<Rightarrow> \<not> isOpened v)
     \<and> logged w' = logged w \<and> probes w' = probes w @ map (\<lambda>x. (u, x)) xs"
proof (induction xs arbitrary: src w)
  case Nil
  then show ?case by simp
next
  case (Cons x xs)
  let ?v = "fst (cv2_VideoCapture u x w)" and ?w1 = "snd (cv2_VideoCapture u x w)"
  have closed: "\<not> isOpened ?v"
    using Cons.prems(1) by (simp add: cv2_VideoCapture_def isOpened_def)
  have same: "\<forall>y\<in>set xs. \<not> cv_opens ?w1 u y"
    using Cons.prems(1) by (simp add: cv2_VideoCapture_def)
  from Cons.IH [OF same, of "Some ?v"] closed
  obtain src' w' where r: "try_backends u xs (Some ?v) ?w1 = (False, src', w')"
    "case src' of None \<Rightarrow> True | Some v \<Rightarrow> \<not> isOpened v"
    "logged w' = logged ?w1" "probes w' = probes ?w1 @ map (\<lambda>x. (u, x)) xs"
    by auto
  show ?case using r closed by (simp add: cv2_VideoCapture_def split: prod.splits)
qed

text \<open>
  C5: when the handle is not open and no backend of its list opens the source,
  \<^verbatim>\<open>capture()\<close> returns without an exception, the handle is still not open, and the call
  has added to the log its CAPTURE line and exactly one error, the CAPTURE FAIL line.
\<close>

theorem capture_open_failure:
  assumes "\<not> isOpen s" and "\<forall>x\<in>set (m_backend s). \<not> cv_opens w (m_url s) x"
  shows "\<exists>s' w'. capture sz fps s w = (None, s', w') \<and> \<not> isOpen s'
           \<and> logged w' = logged w @ [(INFO, ''[MediaStream] CAPTURE'', Some (m_url s)),
                                      (ERROR, ''[MediaStream] CAPTURE FAIL'', Some (m_url s))]
           \<and> length (filter (\<lambda>l. fst l = ERROR) (logged w'))
               = length (filter (\<lambda>l. fst l = ERROR) (logged w)) + 1"
proof -
  let ?w1 = "loginfo ''[MediaStream] CAPTURE'' (Some (m_url s)) w"
  have a: "\<forall>x\<in>set (m_backend s). \<not> cv_opens ?w1 (m_url s) x"
    using assms(2) by (simp add: loginfo_def)
  have b: "case m_source s of None \<Rightarrow> True | Some v \<Rightarrow> \<not> isOpened v"
    using assms(1) by (simp add: isOpen_def split: option.splits)
  from try_backends_none [OF a b]
  obtain src' w2 where r:
    "try_backends (m_url s) (m_backend s) (m_source s) ?w1 = (False, src', w2)"
    "case src' of None \<Rightarrow> True | Some v \<Rightarrow> \<not> isOpened v" "logged w2 = logged ?w1"
    by blast
  show ?thesis using assms(1) r
    by (simp add: capture_def Let_def isOpen_def logerr_def loginfo_def split: option.splits)
qed

theorem capture_open_failure_witness:
  "\<not> isOpen demo_absent
   \<and> list_all (\<lambda>x. \<not> cv_opens demo_world (m_url demo_absent) x) (m_backend demo_absent)
   \<and> fst (capture None 60 demo_absent demo_world) = None
   \<and> \<not> isOpen (fst (snd (capture None 60 demo_absent demo_world)))
   \<and> logged (snd (snd (capture None 60 demo_absent demo_world)))
       = [(INFO, ''[MediaStream] CAPTURE'', Some (PInt 7)),
          (ERROR, ''[MediaStream] CAPTURE FAIL'', Some (PInt 7))]"
  using capture_open_failure [of demo_absent demo_world None 60]
  by (simp add: eval_defs)

text \<open>
  C9: \<^verbatim>\<open>capture(size, fps)\<close> ignores both arguments. Whatever is passed, the call does
  what \<^verbatim>\<open>capture()\<close> does; the stored target size is unchanged; and the rate it leaves is
  the rate the handle had, or \<^verbatim>\<open>max(1, _)\<close> of that rate, or (only for a handle whose
  rate is 0) \<^verbatim>\<open>max(1, _)\<close> of the rate the opened source reports.
\<close>

theorem capture_ignores_arguments:
  "capture sz fps s w = capture None 60 s w
   \<and> m_size (fst (snd (capture sz fps s w))) = m_size s
   \<and> m_fps (fst (snd (capture sz fps s w)))
       \<in> {m_fps s, max 1 (m_fps s),
          max 1 (case m_source (fst (snd (capture sz fps s w))) of
                   None \<Rightarrow> 0 | Some v \<Rightarrow> vc_get v CAP_PROP_FPS)}"
  by (simp add: capture_def Let_def split: prod.splits)

theorem capture_ignores_arguments_witness:
  "capture (Some (Some 320, Some 240)) 25 demo_handle demo_world
     = capture None 60 demo_handle demo_world
   \<and> m_size (fst (snd (capture (Some (Some 320, Some 240)) 25 demo_handle demo_world)))
       = (512, 512)
   \<and> m_fps (fst (snd (capture (Some (Some 320, Some 240)) 25 demo_handle demo_world))) = 60"
  using capture_ignores_arguments [of "Some (Some 320, Some 240)" 25 demo_handle demo_world]
  by (simp add: eval_defs)

subsection \<open>The registry\<close>

text \<open>
  C3 fails on the code: \<^verbatim>\<open>pause(3)\<close> on an empty registry ends in an
  \<^verbatim>\<open>AttributeError\<close>, and \<^verbatim>\<open>pause(0)\<close> after \<^verbatim>\<open>capture(0)\<close> returns with the handle of
  device 0 still unpaused and nothing logged.
\<close>

theorem StreamManager_pause_inverted:
  "fst (StreamManager_pause (PInt 3) [] demo_world) = Some AttributeError
   \<and> (case StreamManager_capture (PInt 0) None None None [] demo_world of
        (e, reg, w) \<Rightarrow>
          map (\<lambda>p. m_paused (snd p)) reg = [False]
          \<and> (case StreamManager_pause (PInt 0) reg w of
               (e', reg', w') \<Rightarrow>
                 e' = None \<and> map (\<lambda>p. m_paused (snd p)) reg' = [False]
                 \<and> logged w' = logged w))"
  by (simp add: eval_defs)

subsection \<open>The HTTP handler\<close>

text \<open>
  C8: a GET whose lower-cased path is not a key of the endpoint table makes the handler
  return at once: nothing is sent (no status line, no header, no body) and nothing is
  logged. The connection is then closed by http.server, when the handler has returned.
\<close>

theorem do_GET_unmapped:
  assumes "map_of out (lower path) = None"
  shows "do_GET enc reads path out w = ([], True, w)"
  using assms by (simp add: do_GET_def)

theorem do_GET_unmapped_witness:
  "map_of demo_out (lower ''/Missing.MJPG'') = None
   \<and> do_GET (\<lambda>f. Some ''jpeg'') [(Some (Zeros 2 2 3), True)] ''/Missing.MJPG'' demo_out
        demo_world = ([], True, demo_world)"
  using do_GET_unmapped [of demo_out "''/Missing.MJPG''" "\<lambda>f. Some ''jpeg''"
      "[(Some (Zeros 2 2 3), True)]" demo_world]
  by (simp add: demo_out_def endpointAdd_def lower_def lower_char_def)

subsection \<open>The polling loop: stall and end of file\<close>

text \<open>
  Line 50 sets \<^verbatim>\<open>timeout\<close> to \<^verbatim>\<open>None\<close> in every iteration, so the stall branch only
  ever starts the timer: no iteration constructs a capture object or writes to the log.
\<close>

lemma run_stalled_None:
  "run_stalled None s v w =
     (if \<not> isOpened v then (None, Some (clock w (ticks w)), s, w\<lparr>ticks := ticks w + 1\<rparr>)
      else (None, None, s, w))"
  by (simp add: run_stalled_def time_time_def)

lemma run_body_no_reopen:
  "probes (snd (snd (snd (run_body t s w)))) = probes w
   \<and> logged (snd (snd (snd (run_body t s w)))) = logged w"
  by (simp add: run_body_def run_failed_def run_stalled_None run_rest_def time_time_def
      time_sleep_def Let_def split: prod.splits option.splits sum.splits)

lemma run_iters_no_reopen:
  "probes (snd (snd (snd (run_iters n t s w)))) = probes w
   \<and> logged (snd (snd (snd (run_iters n t s w)))) = logged w"
proof (induction n arbitrary: t s w)
  case 0
  show ?case by simp
next
  case (Suc n)
  obtain e t1 s1 w1 where b: "run_body t s w = (e, t1, s1, w1)"
    by (cases "run_body t s w") auto
  have p: "probes w1 = probes w" "logged w1 = logged w"
    using run_body_no_reopen [of t s w] b by simp_all
  show ?case
  proof (cases e)
    case None
    then show ?thesis using b p Suc.IH [of t1 s1 w1] by simp
  next
    case (Some x)
    then show ?thesis using b p by simp
  qed
qed

text \<open>
  C1 fails on the code. \<^verbatim>\<open>MediaStream(0)\<close> is captured and then released, so that its
  source is no longer open while the handle is unpaused and device 0 would still open.
  Four iterations of the loop read the clock twelve times, one second apart; the stall
  timer is started anew in each (it ends at the reading 10, nine seconds after the first
  failure), and there is no release, no TIMEOUT line and no reopen: the handle stays
  closed and no capture object is constructed.
\<close>

theorem stall_never_reopens:
  "(case MediaStream_init demo_world (PInt 0) None None ''FIT'' None of
      Inl e \<Rightarrow> False
    | Inr s \<Rightarrow>
        (case capture None 60 s demo_world of
           (e1, s1, w1) \<Rightarrow>
             (case release s1 w1 of
                (s2, w2) \<Rightarrow>
                  (case run_iters 4 None s2 w2 of
                     (e3, t3, s3, w3) \<Rightarrow>
                       isOpen s1 \<and> \<not> m_paused s2 \<and> \<not> isOpen s2 \<and> cv_opens w3 (m_url s3) CAP_ANY
                       \<and> e3 = None \<and> t3 = Some 10 \<and> ticks w2 = 0 \<and> ticks w3 = 12
                       \<and> clock w3 11 - clock w3 1 = 10
                       \<and> \<not> isOpen s3 \<and> probes w3 = probes w2 \<and> logged w3 = logged w2))))"
  by (simp add: eval_defs numeral_eq_Suc)

text \<open>The handle of the example is reached by running the model.\<close>

lemma demo_played_reached:
  "(case capture None 60 demo_handle demo_world of
      (e, s, w) \<Rightarrow> fst (snd (snd (run_iters 3 None s w)))) = demo_played"
  by (simp add: eval_defs demo_played_def demo_clip_def numeral_eq_Suc)

text \<open>
  C6: an unpaused handle over an opened, non-empty finite source whose position has
  reached the frame count. The iteration's read fails; the iteration ends without an
  exception and without a log line or a reopen, keeps the cached frame, and leaves the
  source at position 0, where a read returns frame 0. The next iteration makes that read:
  its success flag is set, and the cached frame is frame 0, or frame 0 resized to the
  target (or still the old frame, when that resize raises).
\<close>

theorem run_body_rewinds_file:
  assumes "\<not> m_paused s" and "m_fps s \<noteq> 0" and "m_source s = Some v"
    and "vc_opened v" and "vc_frames v \<noteq> []" and "length (vc_frames v) \<le> vc_pos v"
  shows "\<exists>t1 s1 w1. run_body t s w = (None, t1, s1, w1)
           \<and> m_source s1 = Some (v\<lparr>vc_pos := 0\<rparr>)
           \<and> logged w1 = logged w \<and> probes w1 = probes w
           \<and> m_frame s1 = m_frame s
           \<and> fst (vc_read (v\<lparr>vc_pos := 0\<rparr>)) = (True, Some (vc_frames v ! 0))
           \<and> m_ret (fst (snd (snd (run_body t1 s1 w1))))
           \<and> m_frame (fst (snd (snd (run_body t1 s1 w1))))
               \<in> {vc_frames v ! 0,
                  Resized (vc_frames v ! 0) (nat (fst (m_size s))) (nat (snd (m_size s))),
                  m_frame s}"
  using assms
  by (simp add: run_body_def run_failed_def run_stalled_def run_rest_def seek_if_at_end_def
      vc_set_pos_def vc_read_def isOpened_def time_time_def time_sleep_def Let_def cv2_resize_def
      split: prod.splits)

theorem run_body_rewinds_file_witness:
  "\<not> m_paused demo_played \<and> m_fps demo_played \<noteq> 0 \<and> m_source demo_played = Some demo_clip
   \<and> vc_opened demo_clip \<and> vc_frames demo_clip \<noteq> []
   \<and> length (vc_frames demo_clip) \<le> vc_pos demo_clip
   \<and> (case run_body None demo_played demo_world of
        (e, t1, s1, w1) \<Rightarrow>
          e = None \<and> m_source s1 = Some (demo_clip\<lparr>vc_pos := 0\<rparr>) \<and> logged w1 = []
          \<and> (case run_body t1 s1 w1 of
               (e2, t2, s2, w2) \<Rightarrow>
                 e2 = None \<and> frame s2 = (True, Resized (Decoded 4 6 3 0) 512 512)))"
  using run_body_rewinds_file [of demo_played demo_clip None demo_world]
  by (simp add: eval_defs demo_played_def demo_clip_def frame_def)

subsection \<open>The device scan\<close>

text \<open>\<^verbatim>\<open>MediaStream(i)\<close> and its \<^verbatim>\<open>capture()\<close>: one probe, with \<^verbatim>\<open>CAP_ANY\<close>.\<close>

lemma init_device:
  "MediaStream_init w (PInt i) None None ''FIT'' None = Inr (demo_handle\<lparr>m_url := PInt i\<rparr>)"
  by (simp add: MediaStream_init_def size_set_def cv2_resize_def np_clip_def py_or_def
      py_or_rat_def resolve_def demo_handle_def Let_def)

lemma capture_device:
  "\<exists>s1 w1. capture None 60 (demo_handle\<lparr>m_url := PInt i\<rparr>) w = (None, s1, w1)
     \<and> isOpen s1 = cv_opens w (PInt i) CAP_ANY
     \<and> probes w1 = probes w @ [(PInt i, CAP_ANY)]
     \<and> cv_opens w1 = cv_opens w"
  by (simp add: capture_def isOpen_def isOpened_def cv2_VideoCapture_def demo_handle_def
      loginfo_def logerr_def time_sleep_def Let_def)

lemma release_all_closed:
  "list_all (\<lambda>p. \<not> isOpen (snd p)) (fst (release_all reg w))
   \<and> map fst (fst (release_all reg w)) = map fst reg
   \<and> probes (snd (release_all reg w)) = probes w"
proof (induction reg arbitrary: w)
  case Nil
  show ?case by simp
next
  case (Cons p reg)
  obtain k stream where p: "p = (k, stream)" by (cases p)
  obtain s1 w1 where r: "release stream w = (s1, w1)" by (cases "release stream w")
  obtain reg1 w2 where q: "release_all reg w1 = (reg1, w2)" by (cases "release_all reg w1")
  have c: "\<not> isOpen s1" "probes w1 = probes w"
    using r by (auto simp add: release_def isOpen_def isOpened_def vc_release_def logwarn_def
        split: option.splits)
  show ?case using p r q c Cons.IH [of w1] by simp
qed

lemma keys_update_new:
  "k \<notin> set (map fst al) \<Longrightarrow> map fst (AList.update k v al) = map fst al @ [k]"
  by (induction al) auto

lemma scan_range_probe:
  assumes "cv_opens w = opens" and "distinct xs" and "\<forall>i\<in>set xs. PInt i \<notin> set (map fst reg)"
  shows "\<exists>reg1 w1. scan_range True xs reg w = (None, reg1, w1)
           \<and> probes w1 = probes w @ map (\<lambda>i. (PInt i, CAP_ANY))
                 (takeWhile (\<lambda>i. opens (PInt i) CAP_ANY) xs
                    @ take 1 (dropWhile (\<lambda>i. opens (PInt i) CAP_ANY) xs))
           \<and> map fst reg1 = map fst reg @ map PInt (takeWhile (\<lambda>i. opens (PInt i) CAP_ANY) xs)"
  using assms
proof (induction xs arbitrary: reg w)
  case Nil
  show ?case by simp
next
  case (Cons i xs)
  obtain s1 w1 where c: "capture None 60 (demo_handle\<lparr>m_url := PInt i\<rparr>) w = (None, s1, w1)"
    "isOpen s1 = cv_opens w (PInt i) CAP_ANY" "probes w1 = probes w @ [(PInt i, CAP_ANY)]"
    "cv_opens w1 = cv_opens w"
    using capture_device [of i w] by blast
  show ?case
  proof (cases "opens (PInt i) CAP_ANY")
    case False
    then show ?thesis using c Cons.prems(1) by (simp add: init_device)
  next
    case True
    have fresh: "PInt i \<notin> set (map fst reg)" using Cons.prems(3) by simp
    have keys: "map fst (AList.update (PInt i) s1 reg) = map fst reg @ [PInt i]"
      using fresh by (rule keys_update_new)
    have a: "cv_opens w1 = opens" using c(4) Cons.prems(1) by simp
    have b: "distinct xs" using Cons.prems(2) by simp
    have d: "\<forall>j\<in>set xs. PInt j \<notin> set (map fst (AList.update (PInt i) s1 reg))"
      using Cons.prems(2,3) keys by auto
    from Cons.IH [OF a b d]
    obtain reg2 w2 where r: "scan_range True xs (AList.update (PInt i) s1 reg) w1 = (None, reg2, w2)"
      "probes w2 = probes w1 @ map (\<lambda>i. (PInt i, CAP_ANY))
                 (takeWhile (\<lambda>i. opens (PInt i) CAP_ANY) xs
                    @ take 1 (dropWhile (\<lambda>i. opens (PInt i) CAP_ANY) xs))"
      "map fst reg2 = map fst (AList.update (PInt i) s1 reg)
          @ map PInt (takeWhile (\<lambda>i. opens (PInt i) CAP_ANY) xs)"
      by blast
    show ?thesis using True c Cons.prems(1) r keys by (simp add: init_device)
  qed
qed

text \<open>
  C7: \<^verbatim>\<open>devicescan(True)\<close> returns without an exception. The capture objects it
  constructs are those of the device indices that open, in order from 0, followed by the
  first index that fails (if one of 0..4 fails): it probes no index after a failure and
  never more than the five indices 0..4. The registry it leaves holds the indices that
  opened, and every handle in it has been released (none is open).
\<close>

theorem devicescan_probe:
  "\<exists>reg1 w1. devicescan True reg w = (None, reg1, w1)
     \<and> probes w1 = probes w @ map (\<lambda>i. (PInt i, CAP_ANY))
           (takeWhile (\<lambda>i. cv_opens w (PInt i) CAP_ANY) [0, 1, 2, 3, 4]
              @ take 1 (dropWhile (\<lambda>i. cv_opens w (PInt i) CAP_ANY) [0, 1, 2, 3, 4]))
     \<and> map fst reg1 = map PInt (takeWhile (\<lambda>i. cv_opens w (PInt i) CAP_ANY) [0, 1, 2, 3, 4])
     \<and> list_all (\<lambda>p. \<not> isOpen (snd p)) reg1
     \<and> length (probes w1) \<le> length (probes w) + 5"
proof -
  let ?w0 = "w\<lparr>ticks := ticks w + 1\<rparr>"
  let ?ok = "\<lambda>i. cv_opens w (PInt i) CAP_ANY"
  have a: "cv_opens ?w0 = cv_opens w" and p0: "probes ?w0 = probes w"
    by simp_all
  have b: "distinct [0, 1, 2, 3, 4 :: int]" by simp
  have d: "\<forall>i\<in>set [0, 1, 2, 3, 4 :: int]. PInt i \<notin> set (map fst ([] :: registry))" by simp
  from scan_range_probe [OF a b d]
  obtain reg1 w1 where r: "scan_range True [0, 1, 2, 3, 4] [] ?w0 = (None, reg1, w1)"
    "probes w1 = probes ?w0 @ map (\<lambda>i. (PInt i, CAP_ANY))
       (takeWhile ?ok [0, 1, 2, 3, 4] @ take 1 (dropWhile ?ok [0, 1, 2, 3, 4]))"
    "map fst reg1 = map fst ([] :: registry) @ map PInt (takeWhile ?ok [0, 1, 2, 3, 4])"
    by blast
  obtain reg2 w2 where q: "release_all reg1 w1 = (reg2, w2)" by (cases "release_all reg1 w1")
  have c: "list_all (\<lambda>p. \<not> isOpen (snd p)) reg2" "map fst reg2 = map fst reg1"
    "probes w2 = probes w1"
    using release_all_closed [of reg1 w1] q by simp_all
  have len: "length (takeWhile ?ok [0, 1, 2, 3, 4] @ take 1 (dropWhile ?ok [0, 1, 2, 3, 4])) \<le> 5"
    by simp
  have tt: "time_time w = (clock w (ticks w), ?w0)"
    and tt2: "time_time w2 = (clock w2 (ticks w2), w2\<lparr>ticks := ticks w2 + 1\<rparr>)"
    by (simp_all add: time_time_def)
  have run: "devicescan True reg w
      = (None, reg2, loginfo ''[StreamManager] SCAN'' None (w2\<lparr>ticks := ticks w2 + 1\<rparr>))"
    unfolding devicescan_def tt by (simp only: r(1) q tt2 prod.case option.case if_True)
  have pr: "probes (loginfo ''[StreamManager] SCAN'' None (w2\<lparr>ticks := ticks w2 + 1\<rparr>))
      = probes w2"
    by (simp add: loginfo_def)
  show ?thesis
    unfolding run using c r(2,3) p0 pr len by simp
qed

theorem devicescan_probe_witness:
  "probes (snd (snd (devicescan True [] (demo_world\<lparr>cv_opens := \<lambda>u x. False\<rparr>))))
     = [(PInt 0, CAP_ANY)]
   \<and> fst (snd (devicescan True [] (demo_world\<lparr>cv_opens := \<lambda>u x. False\<rparr>))) = []
   \<and> probes (snd (snd (devicescan True [] demo_world))) = [(PInt 0, CAP_ANY), (PInt 1, CAP_ANY)]
   \<and> map fst (fst (snd (devicescan True [] demo_world))) = [PInt 0]
   \<and> list_all (\<lambda>p. \<not> isOpen (snd p)) (fst (snd (devicescan True [] demo_world)))"
  using devicescan_probe [of "[]" "demo_world\<lparr>cv_opens := \<lambda>u x. False\<rparr>"]
    devicescan_probe [of "[]" demo_world]
  by (auto simp add: demo_world_def)

end
